theory Spec2Isabelle
  imports Main "HOL-Library.Word" "HOL-Library.Multiset"
begin

section \<open>Data model (src/types.ts and the schema of initSchema)\<close>

text \<open>
  The three entity tables of \<^verbatim>\<open>initSchema\<close>, one record per row. Row identities are
  SQLite rowids (\<^verbatim>\<open>INTEGER PRIMARY KEY AUTOINCREMENT\<close>), modelled as unbounded
  integers. A timestamp is the reading of the engine's clock in seconds: SQLite stores
  \<^verbatim>\<open>datetime('now')\<close> as the text \<^verbatim>\<open>YYYY-MM-DD HH:MM:SS\<close>, whose bytewise
  order is the order of the seconds it renders. \<^verbatim>\<open>description\<close> is optional in
  src/types.ts and nullable in the schema.
\<close>

type_synonym timestamp = nat

type_synonym bytes = "8 word list"

record Project =
  Project_id :: int
  Project_name :: string
  Project_description :: "string option"
  Project_created_at :: timestamp
  Project_updated_at :: timestamp

record Bot =
  Bot_id :: int
  Bot_project_id :: int
  Bot_name :: string
  Bot_description :: "string option"
  Bot_created_at :: timestamp
  Bot_updated_at :: timestamp

record Prompt =
  Prompt_id :: int
  Prompt_bot_id :: int
  Prompt_name :: string
  Prompt_system_prompt :: string
  Prompt_user_prompt :: string
  Prompt_dev_prompt :: string
  Prompt_params :: string
  Prompt_created_at :: timestamp
  Prompt_updated_at :: timestamp

text \<open>
  \<^verbatim>\<open>Partial<Prompt>\<close>, the argument of \<^verbatim>\<open>updatePrompt\<close>: every field of a
  prompt, each one present or \<^verbatim>\<open>undefined\<close>.
\<close>

record PartialPrompt =
  Partial_id :: "int option"
  Partial_bot_id :: "int option"
  Partial_name :: "string option"
  Partial_system_prompt :: "string option"
  Partial_user_prompt :: "string option"
  Partial_dev_prompt :: "string option"
  Partial_params :: "string option"
  Partial_created_at :: "timestamp option"
  Partial_updated_at :: "timestamp option"

text \<open>
  What a JavaScript call can throw here: \<^verbatim>\<open>new Error(msg)\<close>, the
  \<^verbatim>\<open>TypeError\<close> of calling a method on \<^verbatim>\<open>null\<close> (the argument names the
  method), and the \<^verbatim>\<open>DOMException\<close> of the File System Access API (the argument is
  its name).
\<close>

datatype js_error = Error string | TypeError string | DOMException string

definition NotInitialized :: js_error where
  "NotInitialized = Error ''Database not initialized''"

section \<open>The embedded engine\<close>

text \<open>
  The state of one engine instance: the rows of the three tables in rowid order, and the
  \<^verbatim>\<open>sqlite_sequence\<close> counter that \<^verbatim>\<open>AUTOINCREMENT\<close> keeps for each table.
  The model covers database images that carry the schema of \<^verbatim>\<open>initSchema\<close>.
\<close>

record database =
  projects :: "Project list"
  bots :: "Bot list"
  prompts :: "Prompt list"
  seq_projects :: int
  seq_bots :: int
  seq_prompts :: int

text \<open>
  The object that \<^verbatim>\<open>window.initSqlJs\<close> resolves to. The image format is the
  engine's own and no code of the repository reads it, so opening an image and exporting
  one are parameters of the model.
\<close>

record SQL =
  Database_open :: "bytes \<Rightarrow> js_error + database"
  Database_export :: "database \<Rightarrow> bytes"

definition Database_new :: database where
  "Database_new = \<lparr>projects = [], bots = [], prompts = [],
     seq_projects = 0, seq_bots = 0, seq_prompts = 0\<rparr>"

text \<open>
  The rowid that an \<^verbatim>\<open>AUTOINCREMENT\<close> table gives a new row: one more than the
  largest rowid in the table (1 when it is empty), and more than the table's
  \<^verbatim>\<open>sqlite_sequence\<close> counter. The engine's upper limit on rowids is outside the
  model.
\<close>

fun max_rowid :: "int list \<Rightarrow> int" where
  "max_rowid [] = 0"
| "max_rowid [x] = x"
| "max_rowid (x # y # ys) = max x (max_rowid (y # ys))"

definition new_rowid :: "int list \<Rightarrow> int \<Rightarrow> int" where
  "new_rowid ids seq = max (if ids = [] then 1 else max_rowid ids + 1) (seq + 1)"

text \<open>
  \<^verbatim>\<open>ORDER BY updated_at DESC\<close>: the rows by descending key. SQL leaves the order of
  rows with equal keys open; this sorter keeps them in table order.
\<close>

fun insert_desc :: "('a \<Rightarrow> timestamp) \<Rightarrow> 'a \<Rightarrow> 'a list \<Rightarrow> 'a list" where
  "insert_desc k x [] = [x]"
| "insert_desc k x (y # ys) = (if k y \<le> k x then x # y # ys else y # insert_desc k x ys)"

fun order_by_desc :: "('a \<Rightarrow> timestamp) \<Rightarrow> 'a list \<Rightarrow> 'a list" where
  "order_by_desc k [] = []"
| "order_by_desc k (x # xs) = insert_desc k x (order_by_desc k xs)"

text \<open>
  \<^verbatim>\<open>db.exec\<close> of one \<^verbatim>\<open>SELECT\<close>: a list of result sets, empty when the
  statement yields no row, else one result set with the rows.
\<close>

definition exec :: "'a list \<Rightarrow> 'a list list" where
  "exec rows = (if rows = [] then [] else [rows])"

text \<open>
  The statements the service issues. No statement of the repository sets
  \<^verbatim>\<open>PRAGMA foreign_keys\<close>, which SQLite leaves off on a new connection, so the
  \<^verbatim>\<open>FOREIGN KEY ... ON DELETE CASCADE\<close> clauses of the schema are recorded and not
  enforced: an \<^verbatim>\<open>INSERT\<close> checks no parent row and a \<^verbatim>\<open>DELETE\<close> removes rows of
  the named table only. \<^verbatim>\<open>created_at\<close> takes its default
  \<^verbatim>\<open>CURRENT_TIMESTAMP\<close>, the same clock as \<^verbatim>\<open>datetime('now')\<close>.
\<close>

definition insert_project :: "timestamp \<Rightarrow> string \<Rightarrow> string \<Rightarrow> database \<Rightarrow> database" where
  "insert_project now name description d =
     (let rid = new_rowid (map Project_id (projects d)) (seq_projects d) in
      d\<lparr>projects := projects d @
           [\<lparr>Project_id = rid, Project_name = name, Project_description = Some description,
             Project_created_at = now, Project_updated_at = now\<rparr>],
        seq_projects := rid\<rparr>)"

definition update_project :: "timestamp \<Rightarrow> int \<Rightarrow> string \<Rightarrow> string \<Rightarrow> database \<Rightarrow> database" where
  "update_project now i name description d =
     d\<lparr>projects := map (\<lambda>r. if Project_id r = i
          then r\<lparr>Project_name := name, Project_description := Some description,
                 Project_updated_at := now\<rparr>
          else r) (projects d)\<rparr>"

definition delete_project :: "int \<Rightarrow> database \<Rightarrow> database" where
  "delete_project i d = d\<lparr>projects := filter (\<lambda>r. Project_id r \<noteq> i) (projects d)\<rparr>"

definition insert_bot :: "timestamp \<Rightarrow> int \<Rightarrow> string \<Rightarrow> string \<Rightarrow> database \<Rightarrow> database" where
  "insert_bot now projectId name description d =
     (let rid = new_rowid (map Bot_id (bots d)) (seq_bots d) in
      d\<lparr>bots := bots d @
           [\<lparr>Bot_id = rid, Bot_project_id = projectId, Bot_name = name,
             Bot_description = Some description,
             Bot_created_at = now, Bot_updated_at = now\<rparr>],
        seq_bots := rid\<rparr>)"

definition update_bot :: "timestamp \<Rightarrow> int \<Rightarrow> string \<Rightarrow> string \<Rightarrow> database \<Rightarrow> database" where
  "update_bot now i name description d =
     d\<lparr>bots := map (\<lambda>r. if Bot_id r = i
          then r\<lparr>Bot_name := name, Bot_description := Some description,
                 Bot_updated_at := now\<rparr>
          else r) (bots d)\<rparr>"

definition delete_bot :: "int \<Rightarrow> database \<Rightarrow> database" where
  "delete_bot i d = d\<lparr>bots := filter (\<lambda>r. Bot_id r \<noteq> i) (bots d)\<rparr>"

text \<open>
  \<^verbatim>\<open>INSERT INTO prompts\<close> with all six values given; the result carries the rowid
  that \<^verbatim>\<open>last_insert_rowid()\<close> reports right after the statement.
\<close>

definition insert_prompt ::
  "timestamp \<Rightarrow> int \<Rightarrow> string \<Rightarrow> string \<Rightarrow> string \<Rightarrow> string \<Rightarrow> string \<Rightarrow> database
     \<Rightarrow> database \<times> int" where
  "insert_prompt now botId name system_prompt user_prompt dev_prompt params d =
     (let rid = new_rowid (map Prompt_id (prompts d)) (seq_prompts d) in
      (d\<lparr>prompts := prompts d @
           [\<lparr>Prompt_id = rid, Prompt_bot_id = botId, Prompt_name = name,
             Prompt_system_prompt = system_prompt, Prompt_user_prompt = user_prompt,
             Prompt_dev_prompt = dev_prompt, Prompt_params = params,
             Prompt_created_at = now, Prompt_updated_at = now\<rparr>],
         seq_prompts := rid\<rparr>, rid))"

definition delete_prompt :: "int \<Rightarrow> database \<Rightarrow> database" where
  "delete_prompt i d = d\<lparr>prompts := filter (\<lambda>r. Prompt_id r \<noteq> i) (prompts d)\<rparr>"

text \<open>
  The \<^verbatim>\<open>SET\<close> list that \<^verbatim>\<open>updatePrompt\<close> builds, one assignment per entry of
  \<^verbatim>\<open>updates\<close>, and the \<^verbatim>\<open>UPDATE prompts SET ... WHERE id = ?\<close> that runs it.
\<close>

datatype assignment =
  SetName string
| SetSystemPrompt string
| SetUserPrompt string
| SetDevPrompt string
| SetParams string
| SetUpdatedAtNow

fun assign :: "timestamp \<Rightarrow> assignment \<Rightarrow> Prompt \<Rightarrow> Prompt" where
  "assign now (SetName v) r = r\<lparr>Prompt_name := v\<rparr>"
| "assign now (SetSystemPrompt v) r = r\<lparr>Prompt_system_prompt := v\<rparr>"
| "assign now (SetUserPrompt v) r = r\<lparr>Prompt_user_prompt := v\<rparr>"
| "assign now (SetDevPrompt v) r = r\<lparr>Prompt_dev_prompt := v\<rparr>"
| "assign now (SetParams v) r = r\<lparr>Prompt_params := v\<rparr>"
| "assign now SetUpdatedAtNow r = r\<lparr>Prompt_updated_at := now\<rparr>"

definition update_prompts :: "timestamp \<Rightarrow> assignment list \<Rightarrow> int \<Rightarrow> database \<Rightarrow> database" where
  "update_prompts now updates i d =
     d\<lparr>prompts := map (\<lambda>r. if Prompt_id r = i then fold (assign now) updates r else r)
        (prompts d)\<rparr>"

section \<open>DatabaseService (src/services/DatabaseService.ts)\<close>

text \<open>
  The service object: the engine instance (\<^verbatim>\<open>null\<close> until \<^verbatim>\<open>init\<close>) and the
  file handle. A method that assigns a field or runs a writing statement returns its
  result together with the service after the call, also when it throws; a method that
  only reads returns its result.
\<close>

record FileSystemFileHandle =
  handle_name :: string

record DatabaseService =
  db :: "database option"
  fileHandle :: "FileSystemFileHandle option"

definition DatabaseService_new :: DatabaseService where
  "DatabaseService_new = \<lparr>db = None, fileHandle = None\<rparr>"

text \<open>
  \<^verbatim>\<open>initSchema\<close> runs three \<^verbatim>\<open>CREATE TABLE IF NOT EXISTS\<close> statements. The
  tables are the fields of \<open>database\<close>, so \<open>Database_new\<close> already stands for the
  new database with its three empty tables, and on a database that has the tables the
  statements change no row. \<^verbatim>\<open>init\<close> fails when \<^verbatim>\<open>window.initSqlJs\<close> is
  absent; loading the engine is taken to succeed when it is present.
\<close>

definition initSchema :: "database \<Rightarrow> database" where
  "initSchema d = d"

definition init ::
  "SQL option \<Rightarrow> bytes option \<Rightarrow> DatabaseService \<Rightarrow> (js_error + unit) \<times> DatabaseService" where
  "init initSqlJs data s =
     (case initSqlJs of
        None \<Rightarrow> (Inl (Error ''SQL.js not loaded''), s)
      | Some sql \<Rightarrow>
          (case data of
             Some b \<Rightarrow>
               (case Database_open sql b of
                  Inl e \<Rightarrow> (Inl e, s)
                | Inr d \<Rightarrow> (Inr (), s\<lparr>db := Some d\<rparr>))
           | None \<Rightarrow> (Inr (), s\<lparr>db := Some (initSchema Database_new)\<rparr>)))"

definition setFileHandle :: "FileSystemFileHandle option \<Rightarrow> DatabaseService \<Rightarrow> DatabaseService" where
  "setFileHandle handle s = s\<lparr>fileHandle := handle\<rparr>"

definition export :: "SQL \<Rightarrow> DatabaseService \<Rightarrow> js_error + bytes" where
  "export sql s =
     (case db s of
        None \<Rightarrow> Inl (Error ''Database not initialized'')
      | Some d \<Rightarrow> Inr (Database_export sql d))"

subsection \<open>Projects\<close>

definition getProjects :: "DatabaseService \<Rightarrow> js_error + Project list" where
  "getProjects s =
     (case db s of
        None \<Rightarrow> Inl (TypeError ''exec'')
      | Some d \<Rightarrow>
          (case exec (order_by_desc Project_updated_at (projects d)) of
             [] \<Rightarrow> Inr []
           | res0 # _ \<Rightarrow> Inr res0))"

definition getProject :: "int \<Rightarrow> DatabaseService \<Rightarrow> js_error + Project option" where
  "getProject i s =
     (case db s of
        None \<Rightarrow> Inl (TypeError ''exec'')
      | Some d \<Rightarrow>
          (case exec (filter (\<lambda>r. Project_id r = i) (projects d)) of
             [] \<Rightarrow> Inr None
           | res0 # _ \<Rightarrow> (case res0 of [] \<Rightarrow> Inr None | r # _ \<Rightarrow> Inr (Some r))))"

definition createProject ::
  "timestamp \<Rightarrow> string \<Rightarrow> string \<Rightarrow> DatabaseService \<Rightarrow> (js_error + unit) \<times> DatabaseService" where
  "createProject now name description s =
     (case db s of
        None \<Rightarrow> (Inl (TypeError ''prepare''), s)
      | Some d \<Rightarrow> (Inr (), s\<lparr>db := Some (insert_project now name description d)\<rparr>))"

definition updateProject ::
  "timestamp \<Rightarrow> int \<Rightarrow> string \<Rightarrow> string \<Rightarrow> DatabaseService
     \<Rightarrow> (js_error + unit) \<times> DatabaseService" where
  "updateProject now i name description s =
     (case db s of
        None \<Rightarrow> (Inl (TypeError ''prepare''), s)
      | Some d \<Rightarrow> (Inr (), s\<lparr>db := Some (update_project now i name description d)\<rparr>))"

definition deleteProject :: "int \<Rightarrow> DatabaseService \<Rightarrow> (js_error + unit) \<times> DatabaseService" where
  "deleteProject i s =
     (case db s of
        None \<Rightarrow> (Inl (TypeError ''run''), s)
      | Some d \<Rightarrow> (Inr (), s\<lparr>db := Some (delete_project i d)\<rparr>))"

subsection \<open>Bots\<close>

definition getBots :: "int \<Rightarrow> DatabaseService \<Rightarrow> js_error + Bot list" where
  "getBots projectId s =
     (case db s of
        None \<Rightarrow> Inl (TypeError ''exec'')
      | Some d \<Rightarrow>
          (case exec (order_by_desc Bot_updated_at
                        (filter (\<lambda>r. Bot_project_id r = projectId) (bots d))) of
             [] \<Rightarrow> Inr []
           | res0 # _ \<Rightarrow> Inr res0))"

definition getBot :: "int \<Rightarrow> DatabaseService \<Rightarrow> js_error + Bot option" where
  "getBot i s =
     (case db s of
        None \<Rightarrow> Inl (TypeError ''exec'')
      | Some d \<Rightarrow>
          (case exec (filter (\<lambda>r. Bot_id r = i) (bots d)) of
             [] \<Rightarrow> Inr None
           | res0 # _ \<Rightarrow> (case res0 of [] \<Rightarrow> Inr None | r # _ \<Rightarrow> Inr (Some r))))"

definition createBot ::
  "timestamp \<Rightarrow> int \<Rightarrow> string \<Rightarrow> string \<Rightarrow> DatabaseService
     \<Rightarrow> (js_error + unit) \<times> DatabaseService" where
  "createBot now projectId name description s =
     (case db s of
        None \<Rightarrow> (Inl (TypeError ''prepare''), s)
      | Some d \<Rightarrow> (Inr (), s\<lparr>db := Some (insert_bot now projectId name description d)\<rparr>))"

definition updateBot ::
  "timestamp \<Rightarrow> int \<Rightarrow> string \<Rightarrow> string \<Rightarrow> DatabaseService
     \<Rightarrow> (js_error + unit) \<times> DatabaseService" where
  "updateBot now i name description s =
     (case db s of
        None \<Rightarrow> (Inl (TypeError ''prepare''), s)
      | Some d \<Rightarrow> (Inr (), s\<lparr>db := Some (update_bot now i name description d)\<rparr>))"

definition deleteBot :: "int \<Rightarrow> DatabaseService \<Rightarrow> (js_error + unit) \<times> DatabaseService" where
  "deleteBot i s =
     (case db s of
        None \<Rightarrow> (Inl (TypeError ''run''), s)
      | Some d \<Rightarrow> (Inr (), s\<lparr>db := Some (delete_bot i d)\<rparr>))"

subsection \<open>Prompts\<close>

definition getPrompts :: "int \<Rightarrow> DatabaseService \<Rightarrow> js_error + Prompt list" where
  "getPrompts botId s =
     (case db s of
        None \<Rightarrow> Inl (TypeError ''exec'')
      | Some d \<Rightarrow>
          (case exec (order_by_desc Prompt_updated_at
                        (filter (\<lambda>r. Prompt_bot_id r = botId) (prompts d))) of
             [] \<Rightarrow> Inr []
           | res0 # _ \<Rightarrow> Inr res0))"

definition getPrompt :: "int \<Rightarrow> DatabaseService \<Rightarrow> js_error + Prompt option" where
  "getPrompt i s =
     (case db s of
        None \<Rightarrow> Inl (TypeError ''exec'')
      | Some d \<Rightarrow>
          (case exec (filter (\<lambda>r. Prompt_id r = i) (prompts d)) of
             [] \<Rightarrow> Inr None
           | res0 # _ \<Rightarrow> (case res0 of [] \<Rightarrow> Inr None | r # _ \<Rightarrow> Inr (Some r))))"

text \<open>
  \<^verbatim>\<open>JSON.stringify({ temperature: 0.7, maxOutputTokens: 1024 }, null, 2)\<close>: three
  lines, the two members indented by two spaces.
\<close>

definition defaultParams :: string where
  "defaultParams =
     ''{'' @ [CHR 0x0A] @
     ''  '' @ [CHR 0x22] @ ''temperature'' @ [CHR 0x22] @ '': 0.7,'' @ [CHR 0x0A] @
     ''  '' @ [CHR 0x22] @ ''maxOutputTokens'' @ [CHR 0x22] @ '': 1024'' @ [CHR 0x0A] @
     ''}''"

definition createPrompt ::
  "timestamp \<Rightarrow> int \<Rightarrow> string \<Rightarrow> DatabaseService \<Rightarrow> (js_error + int) \<times> DatabaseService" where
  "createPrompt now botId name s =
     (case db s of
        None \<Rightarrow> (Inl (TypeError ''prepare''), s)
      | Some d \<Rightarrow>
          (let (d', rid) = insert_prompt now botId name [] [] [] defaultParams d
           in (Inr rid, s\<lparr>db := Some d'\<rparr>)))"

definition updatePrompt ::
  "timestamp \<Rightarrow> int \<Rightarrow> PartialPrompt \<Rightarrow> DatabaseService
     \<Rightarrow> (js_error + unit) \<times> DatabaseService" where
  "updatePrompt now i data s =
     (let updates =
            (case Partial_name data of Some v \<Rightarrow> [SetName v] | None \<Rightarrow> []) @
            (case Partial_system_prompt data of Some v \<Rightarrow> [SetSystemPrompt v] | None \<Rightarrow> []) @
            (case Partial_user_prompt data of Some v \<Rightarrow> [SetUserPrompt v] | None \<Rightarrow> []) @
            (case Partial_dev_prompt data of Some v \<Rightarrow> [SetDevPrompt v] | None \<Rightarrow> []) @
            (case Partial_params data of Some v \<Rightarrow> [SetParams v] | None \<Rightarrow> [])
      in if updates = [] then (Inr (), s)
         else (case db s of
                 None \<Rightarrow> (Inl (TypeError ''run''), s)
               | Some d \<Rightarrow>
                   (Inr (), s\<lparr>db := Some (update_prompts now (updates @ [SetUpdatedAtNow]) i d)\<rparr>)))"

definition deletePrompt :: "int \<Rightarrow> DatabaseService \<Rightarrow> (js_error + unit) \<times> DatabaseService" where
  "deletePrompt i s =
     (case db s of
        None \<Rightarrow> (Inl (TypeError ''run''), s)
      | Some d \<Rightarrow> (Inr (), s\<lparr>db := Some (delete_prompt i d)\<rparr>))"

definition duplicatePrompt ::
  "timestamp \<Rightarrow> int \<Rightarrow> DatabaseService \<Rightarrow> (js_error + unit) \<times> DatabaseService" where
  "duplicatePrompt now i s =
     (case getPrompt i s of
        Inl e \<Rightarrow> (Inl e, s)
      | Inr None \<Rightarrow> (Inr (), s)
      | Inr (Some prompt) \<Rightarrow>
          (case db s of
             None \<Rightarrow> (Inl (TypeError ''prepare''), s)
           | Some d \<Rightarrow>
               (Inr (), s\<lparr>db := Some (fst (insert_prompt now (Prompt_bot_id prompt)
                    (Prompt_name prompt @ '' (Copy)'') (Prompt_system_prompt prompt)
                    (Prompt_user_prompt prompt) (Prompt_dev_prompt prompt)
                    (Prompt_params prompt) d))\<rparr>)))"

section \<open>Saving to the bound file\<close>

text \<open>
  What \<^verbatim>\<open>saveToDisk\<close> and its caller \<^verbatim>\<open>handleSaveDb\<close> act on: the service,
  the one slot \<^verbatim>\<open>'db_handle'\<close> that \<^verbatim>\<open>StorageService\<close> keeps in its own store,
  and the content of the files the handles name. The host decides whether a handle may
  be written: \<^verbatim>\<open>createWritable\<close>, \<^verbatim>\<open>write\<close> and \<^verbatim>\<open>close\<close> each
  resolve (\<open>None\<close>) or reject with an exception; a refused write permission rejects
  \<^verbatim>\<open>createWritable\<close> with the \<^verbatim>\<open>DOMException\<close> named
  \<^verbatim>\<open>NotAllowedError\<close>.
\<close>

record file_access =
  createWritable :: "FileSystemFileHandle \<Rightarrow> js_error option"
  writable_write :: "FileSystemFileHandle \<Rightarrow> js_error option"
  writable_close :: "FileSystemFileHandle \<Rightarrow> js_error option"

record world =
  service :: DatabaseService
  db_handle :: "FileSystemFileHandle option"
  files :: "FileSystemFileHandle \<Rightarrow> bytes option"

definition getHandle :: "world \<Rightarrow> FileSystemFileHandle option" where
  "getHandle w = db_handle w"

definition saveHandle :: "FileSystemFileHandle \<Rightarrow> world \<Rightarrow> world" where
  "saveHandle handle w = w\<lparr>db_handle := Some handle\<rparr>"

definition clearHandle :: "world \<Rightarrow> world" where
  "clearHandle w = w\<lparr>db_handle := None\<rparr>"

definition saveToDisk :: "SQL \<Rightarrow> file_access \<Rightarrow> world \<Rightarrow> (js_error + bool) \<times> world" where
  "saveToDisk sql fa w =
     (case db (service w) of
        None \<Rightarrow> (Inr False, w)
      | Some d \<Rightarrow>
          (case fileHandle (service w) of
             None \<Rightarrow> (Inr False, w)
           | Some h \<Rightarrow>
               (let data = Database_export sql d in
                case createWritable fa h of
                  Some e \<Rightarrow> (Inl e, w)
                | None \<Rightarrow>
                    (case writable_write fa h of
                       Some e \<Rightarrow> (Inl e, w)
                     | None \<Rightarrow>
                         (case writable_close fa h of
                            Some e \<Rightarrow> (Inl e, w)
                          | None \<Rightarrow> (Inr True, w\<lparr>files := (files w)(h := Some data)\<rparr>))))))"

text \<open>
  \<^verbatim>\<open>handleSaveDb\<close> of the main component: what the user is shown, the status
  \<^verbatim>\<open>'Saved to disk!'\<close>, the status \<^verbatim>\<open>'Downloaded'\<close> with the bytes handed to
  the browser, or the alert \<^verbatim>\<open>"Failed to save database: "\<close> with the error caught.
\<close>

datatype save_status = SavedToDisk | Downloaded bytes | FailedAlert js_error

definition handleSaveDb :: "SQL \<Rightarrow> file_access \<Rightarrow> world \<Rightarrow> save_status \<times> world" where
  "handleSaveDb sql fa w =
     (case saveToDisk sql fa w of
        (Inl e, w') \<Rightarrow> (FailedAlert e, w')
      | (Inr success, w') \<Rightarrow>
          (if success then (SavedToDisk, w')
           else (case export sql (service w') of
                   Inl e \<Rightarrow> (FailedAlert e, w')
                 | Inr data \<Rightarrow> (Downloaded data, w'))))"

section \<open>Concrete inputs\<close>

definition refusing :: file_access where
  "refusing =
     \<lparr>createWritable = (\<lambda>h. Some (DOMException ''NotAllowedError'')),
      writable_write = (\<lambda>h. None),
      writable_close = (\<lambda>h. None)\<rparr>"

definition prompts_sqlite :: FileSystemFileHandle where
  "prompts_sqlite = \<lparr>handle_name = ''prompts.sqlite''\<rparr>"

definition no_fields :: PartialPrompt where
  "no_fields =
     \<lparr>Partial_id = None, Partial_bot_id = None, Partial_name = None,
      Partial_system_prompt = None, Partial_user_prompt = None, Partial_dev_prompt = None,
      Partial_params = None, Partial_created_at = None, Partial_updated_at = None\<rparr>"

section \<open>Notions used by the properties\<close>

text \<open>A listing is recent-first when no row is followed by one with a later key.\<close>

definition sorted_desc :: "('a \<Rightarrow> timestamp) \<Rightarrow> 'a list \<Rightarrow> bool" where
  "sorted_desc k xs = sorted_wrt (\<lambda>a b. k b \<le> k a) xs"

text \<open>The five fields of a \<^verbatim>\<open>Partial<Prompt>\<close> that \<^verbatim>\<open>updatePrompt\<close> looks at.\<close>

definition updatable ::
  "PartialPrompt \<Rightarrow> string option \<times> string option \<times> string option \<times> string option \<times> string option" where
  "updatable f =
     (Partial_name f, Partial_system_prompt f, Partial_user_prompt f, Partial_dev_prompt f,
      Partial_params f)"

text \<open>
  The session that \<^verbatim>\<open>init()\<close> without bytes leaves, whatever the engine; the one
  after a project, a bot of it and a prompt of that bot were created at the clock
  readings 1, 2 and 3; a world whose service is bound to a file that the handle store
  remembers.
\<close>

definition fresh_session :: DatabaseService where
  "fresh_session = \<lparr>db = Some (initSchema Database_new), fileHandle = None\<rparr>"

definition one_of_each :: DatabaseService where
  "one_of_each =
     snd (createPrompt 3 1 ''New Prompt''
       (snd (createBot 2 1 ''B1'' ''''
         (snd (createProject 1 ''P1'' '''' fresh_session)))))"

definition bound_world :: world where
  "bound_world =
     \<lparr>service = \<lparr>db = Some Database_new, fileHandle = Some prompts_sqlite\<rparr>,
      db_handle = Some prompts_sqlite,
      files = (\<lambda>h. None)\<rparr>"

section \<open>Facts about the engine\<close>

text \<open>
  The sorter returns the rows it was given, each as often as it occurs, none followed by
  a row with a later key; a new rowid occurs nowhere in its table.
\<close>

lemma mset_insert_desc: "mset (insert_desc k x xs) = add_mset x (mset xs)"
  by (induction xs) auto

lemma mset_order_by_desc: "mset (order_by_desc k xs) = mset xs"
  by (induction xs) (auto simp: mset_insert_desc)

lemma set_order_by_desc: "set (order_by_desc k xs) = set xs"
  by (metis mset_order_by_desc set_mset_mset)

lemma sorted_insert_desc:
  "sorted_wrt (\<lambda>a b. k b \<le> k a) xs \<Longrightarrow> sorted_wrt (\<lambda>a b. k b \<le> k a) (insert_desc k x xs)"
proof (induction xs)
  case Nil
  then show ?case by simp
next
  case (Cons y ys)
  have "set (insert_desc k x ys) = insert x (set ys)"
    by (metis mset_insert_desc set_mset_add_mset_insert set_mset_mset)
  with Cons show ?case by auto
qed

lemma sorted_order_by_desc: "sorted_desc k (order_by_desc k xs)"
  unfolding sorted_desc_def by (induction xs) (auto simp: sorted_insert_desc)

lemma sorted_desc_listing:
  "sorted_desc k (order_by_desc k xs) \<and> mset (order_by_desc k xs) = mset xs"
  by (simp add: sorted_order_by_desc mset_order_by_desc)

lemma exec_rows: "(case exec rows of [] \<Rightarrow> Inr [] | res0 # x \<Rightarrow> Inr res0) = Inr rows"
  by (simp add: exec_def)


lemma max_rowid_ge: "x \<in> set ids \<Longrightarrow> x \<le> max_rowid ids"
  by (induction ids rule: max_rowid.induct) auto

lemma new_rowid_fresh: "new_rowid ids seq \<notin> set ids"
proof
  assume mem: "new_rowid ids seq \<in> set ids"
  then have "new_rowid ids seq \<le> max_rowid ids" by (rule max_rowid_ge)
  moreover have "ids \<noteq> []" using mem by auto
  ultimately show False by (simp add: new_rowid_def)
qed

lemma new_rowid_first: "new_rowid [] 0 = 1"
  by (simp add: new_rowid_def)

lemma filter_absent: "i \<notin> k ` set xs \<Longrightarrow> filter (\<lambda>r. k r \<noteq> i) xs = xs"
  by (induction xs) auto

lemma filter_none: "i \<notin> k ` set xs \<Longrightarrow> filter (\<lambda>r. k r = i) xs = []"
  by (induction xs) auto

lemma filter_new_row:
  "k x \<notin> k ` set xs \<Longrightarrow> filter (\<lambda>r. k r = k x) (xs @ [x]) = [x]"
  by (simp add: filter_none)

lemma map_absent: "i \<notin> k ` set xs \<Longrightarrow> map (\<lambda>r. if k r = i then g r else r) xs = xs"
  by (induction xs) auto

lemma insert_prompt_rows:
  "prompts (fst (insert_prompt now b n sp up dp pa d)) =
     prompts d @
       [\<lparr>Prompt_id = new_rowid (map Prompt_id (prompts d)) (seq_prompts d),
         Prompt_bot_id = b, Prompt_name = n, Prompt_system_prompt = sp,
         Prompt_user_prompt = up, Prompt_dev_prompt = dp, Prompt_params = pa,
         Prompt_created_at = now, Prompt_updated_at = now\<rparr>]
   \<and> projects (fst (insert_prompt now b n sp up dp pa d)) = projects d
   \<and> bots (fst (insert_prompt now b n sp up dp pa d)) = bots d
   \<and> snd (insert_prompt now b n sp up dp pa d)
       = new_rowid (map Prompt_id (prompts d)) (seq_prompts d)"
  by (simp add: insert_prompt_def Let_def)

lemma fold_assign_updates:
  "fold (assign now)
     ((case a of Some v \<Rightarrow> [SetName v] | None \<Rightarrow> []) @
      (case b of Some v \<Rightarrow> [SetSystemPrompt v] | None \<Rightarrow> []) @
      (case c of Some v \<Rightarrow> [SetUserPrompt v] | None \<Rightarrow> []) @
      (case e of Some v \<Rightarrow> [SetDevPrompt v] | None \<Rightarrow> []) @
      (case g of Some v \<Rightarrow> [SetParams v] | None \<Rightarrow> []) @ [SetUpdatedAtNow]) r =
   \<lparr>Prompt_id = Prompt_id r, Prompt_bot_id = Prompt_bot_id r,
    Prompt_name = (case a of Some v \<Rightarrow> v | None \<Rightarrow> Prompt_name r),
    Prompt_system_prompt = (case b of Some v \<Rightarrow> v | None \<Rightarrow> Prompt_system_prompt r),
    Prompt_user_prompt = (case c of Some v \<Rightarrow> v | None \<Rightarrow> Prompt_user_prompt r),
    Prompt_dev_prompt = (case e of Some v \<Rightarrow> v | None \<Rightarrow> Prompt_dev_prompt r),
    Prompt_params = (case g of Some v \<Rightarrow> v | None \<Rightarrow> Prompt_params r),
    Prompt_created_at = Prompt_created_at r, Prompt_updated_at = now\<rparr>"
  by (cases r) (simp split: option.splits)

lemma updates_empty:
  "((case a of Some v \<Rightarrow> [SetName v] | None \<Rightarrow> []) @
    (case b of Some v \<Rightarrow> [SetSystemPrompt v] | None \<Rightarrow> []) @
    (case c of Some v \<Rightarrow> [SetUserPrompt v] | None \<Rightarrow> []) @
    (case e of Some v \<Rightarrow> [SetDevPrompt v] | None \<Rightarrow> []) @
    (case g of Some v \<Rightarrow> [SetParams v] | None \<Rightarrow> []) = [])
   \<longleftrightarrow> (a, b, c, e, g) = (None, None, None, None, None)"
  by (simp split: option.splits)

section \<open>Facts about the service\<close>

text \<open>
  In an initialized session the three listings are the sorted selections, a single fetch
  is the first row selected, and each create operation lists the row it made.
\<close>

lemma init_without_bytes:
  "init (Some sql) None DatabaseService_new = (Inr (), fresh_session)"
  by (simp add: init_def fresh_session_def DatabaseService_new_def)

lemma export_initialized:
  "db s = Some d \<Longrightarrow> export sql s = Inr (Database_export sql d)"
  by (simp add: export_def)

lemma init_with_bytes:
  "Database_open sql b = Inr d \<Longrightarrow> init (Some sql) (Some b) s = (Inr (), s\<lparr>db := Some d\<rparr>)"
  by (simp add: init_def)

lemma getProjects_listing:
  "db s = Some d \<Longrightarrow> getProjects s = Inr (order_by_desc Project_updated_at (projects d))"
  by (simp add: getProjects_def exec_rows)

lemma getBots_listing:
  "db s = Some d \<Longrightarrow>
   getBots p s = Inr (order_by_desc Bot_updated_at (filter (\<lambda>r. Bot_project_id r = p) (bots d)))"
  by (simp add: getBots_def exec_rows)

lemma getPrompts_listing:
  "db s = Some d \<Longrightarrow>
   getPrompts b s =
     Inr (order_by_desc Prompt_updated_at (filter (\<lambda>r. Prompt_bot_id r = b) (prompts d)))"
  by (simp add: getPrompts_def exec_rows)



lemma service_same: "db s = Some d \<Longrightarrow> s\<lparr>db := Some d\<rparr> = s"
  by (cases s) simp

lemma createPrompt_result:
  assumes "db s = Some d"
  shows "createPrompt now b n s =
           (Inr (snd (insert_prompt now b n [] [] [] defaultParams d)),
            s\<lparr>db := Some (fst (insert_prompt now b n [] [] [] defaultParams d))\<rparr>)"
  using assms by (simp add: createPrompt_def split: prod.splits)

lemma one_of_each_db:
  "db one_of_each =
     Some \<lparr>projects = [\<lparr>Project_id = 1, Project_name = ''P1'', Project_description = Some [],
                         Project_created_at = 1, Project_updated_at = 1\<rparr>],
           bots = [\<lparr>Bot_id = 1, Bot_project_id = 1, Bot_name = ''B1'',
                     Bot_description = Some [], Bot_created_at = 2, Bot_updated_at = 2\<rparr>],
           prompts = [\<lparr>Prompt_id = 1, Prompt_bot_id = 1, Prompt_name = ''New Prompt'',
                        Prompt_system_prompt = [], Prompt_user_prompt = [],
                        Prompt_dev_prompt = [], Prompt_params = defaultParams,
                        Prompt_created_at = 3, Prompt_updated_at = 3\<rparr>],
           seq_projects = 1, seq_bots = 1, seq_prompts = 1\<rparr>"
  by (simp add: one_of_each_def fresh_session_def init_def initSchema_def Database_new_def
      DatabaseService_new_def createProject_def createBot_def createPrompt_def
      insert_project_def insert_bot_def insert_prompt_def new_rowid_def)

lemma createProject_listed:
  assumes "db s = Some d"
  shows "\<exists>s' ps r. createProject now n de s = (Inr (), s')
           \<and> getProjects s' = Inr ps \<and> sorted_desc Project_updated_at ps
           \<and> r \<in> set ps \<and> Project_name r = n \<and> Project_description r = Some de
           \<and> Project_updated_at r = now \<and> Project_id r \<notin> Project_id ` set (projects d)"
proof -
  let ?rid = "new_rowid (map Project_id (projects d)) (seq_projects d)"
  let ?r = "\<lparr>Project_id = ?rid, Project_name = n, Project_description = Some de,
             Project_created_at = now, Project_updated_at = now\<rparr>"
  let ?d' = "insert_project now n de d"
  let ?s' = "s\<lparr>db := Some ?d'\<rparr>"
  have c: "createProject now n de s = (Inr (), ?s')"
    using assms by (simp add: createProject_def)
  have rows: "projects ?d' = projects d @ [?r]"
    by (simp add: insert_project_def Let_def)
  have l: "getProjects ?s' = Inr (order_by_desc Project_updated_at (projects ?d'))"
    by (rule getProjects_listing) simp
  have m: "?r \<in> set (order_by_desc Project_updated_at (projects ?d'))"
    by (simp add: set_order_by_desc rows)
  have f: "?rid \<notin> Project_id ` set (projects d)"
    using new_rowid_fresh [of "map Project_id (projects d)" "seq_projects d"] by simp
  from c l m f sorted_order_by_desc [of Project_updated_at "projects ?d'"]
  show ?thesis by force
qed

lemma createBot_listed:
  assumes "db s = Some d"
  shows "\<exists>s' bs r. createBot now p n de s = (Inr (), s')
           \<and> getBots p s' = Inr bs \<and> sorted_desc Bot_updated_at bs
           \<and> r \<in> set bs \<and> Bot_project_id r = p \<and> Bot_name r = n
           \<and> Bot_description r = Some de
           \<and> Bot_updated_at r = now \<and> Bot_id r \<notin> Bot_id ` set (bots d)"
proof -
  let ?rid = "new_rowid (map Bot_id (bots d)) (seq_bots d)"
  let ?r = "\<lparr>Bot_id = ?rid, Bot_project_id = p, Bot_name = n, Bot_description = Some de,
             Bot_created_at = now, Bot_updated_at = now\<rparr>"
  let ?d' = "insert_bot now p n de d"
  let ?s' = "s\<lparr>db := Some ?d'\<rparr>"
  let ?l = "order_by_desc Bot_updated_at (filter (\<lambda>r. Bot_project_id r = p) (bots ?d'))"
  have c: "createBot now p n de s = (Inr (), ?s')"
    using assms by (simp add: createBot_def)
  have rows: "bots ?d' = bots d @ [?r]"
    by (simp add: insert_bot_def Let_def)
  have l: "getBots p ?s' = Inr ?l"
    by (rule getBots_listing) simp
  have m: "?r \<in> set ?l"
    by (simp add: set_order_by_desc rows)
  have f: "?rid \<notin> Bot_id ` set (bots d)"
    using new_rowid_fresh [of "map Bot_id (bots d)" "seq_bots d"] by simp
  from c l m f sorted_order_by_desc [of Bot_updated_at]
  show ?thesis by force
qed

lemma createPrompt_listed:
  assumes "db s = Some d"
  shows "\<exists>rid s' qs r. createPrompt now b n s = (Inr rid, s')
           \<and> getPrompts b s' = Inr qs \<and> sorted_desc Prompt_updated_at qs
           \<and> r \<in> set qs \<and> Prompt_id r = rid \<and> Prompt_bot_id r = b \<and> Prompt_name r = n
           \<and> Prompt_updated_at r = now \<and> rid \<notin> Prompt_id ` set (prompts d)"
proof -
  let ?rid = "new_rowid (map Prompt_id (prompts d)) (seq_prompts d)"
  let ?r = "\<lparr>Prompt_id = ?rid, Prompt_bot_id = b, Prompt_name = n,
             Prompt_system_prompt = [], Prompt_user_prompt = [], Prompt_dev_prompt = [],
             Prompt_params = defaultParams,
             Prompt_created_at = now, Prompt_updated_at = now\<rparr>"
  let ?d' = "fst (insert_prompt now b n [] [] [] defaultParams d)"
  let ?s' = "s\<lparr>db := Some ?d'\<rparr>"
  let ?l = "order_by_desc Prompt_updated_at (filter (\<lambda>r. Prompt_bot_id r = b) (prompts ?d'))"
  have c: "createPrompt now b n s = (Inr ?rid, ?s')"
    using createPrompt_result [OF assms] by (simp add: insert_prompt_rows)
  have l: "getPrompts b ?s' = Inr ?l"
    by (rule getPrompts_listing) simp
  have m: "?r \<in> set ?l"
    by (simp add: set_order_by_desc insert_prompt_rows)
  have f: "?rid \<notin> Prompt_id ` set (prompts d)"
    using new_rowid_fresh [of "map Prompt_id (prompts d)" "seq_prompts d"] by simp
  from c l m f sorted_order_by_desc [of Prompt_updated_at]
  show ?thesis by force
qed

section \<open>Deleting a project\<close>

text \<open>
  C1. Evaluation of \<^verbatim>\<open>deleteProject\<close> on the session with project 1, its bot 1 and
  that bot's prompt 1: the project row goes, while \<^verbatim>\<open>getBots(1)\<close> still lists the
  bot, \<^verbatim>\<open>getPrompts(1)\<close> still lists the prompt and \<^verbatim>\<open>getPrompt(1)\<close> still
  finds it. The cascade that the schema
  declares and that the comment in \<^verbatim>\<open>deleteProject\<close> counts on does not take place.
\<close>

theorem deleteProject_keeps_descendants:
  "getProject 1 one_of_each =
     Inr (Some \<lparr>Project_id = 1, Project_name = ''P1'', Project_description = Some '''',
                Project_created_at = 1, Project_updated_at = 1\<rparr>)
   \<and> fst (deleteProject 1 one_of_each) = Inr ()
   \<and> getProject 1 (snd (deleteProject 1 one_of_each)) = Inr None
   \<and> getBots 1 (snd (deleteProject 1 one_of_each)) =
       Inr [\<lparr>Bot_id = 1, Bot_project_id = 1, Bot_name = ''B1'', Bot_description = Some '''',
             Bot_created_at = 2, Bot_updated_at = 2\<rparr>]
   \<and> getPrompts 1 (snd (deleteProject 1 one_of_each)) =
       Inr [\<lparr>Prompt_id = 1, Prompt_bot_id = 1, Prompt_name = ''New Prompt'',
             Prompt_system_prompt = '''', Prompt_user_prompt = '''', Prompt_dev_prompt = '''',
             Prompt_params = defaultParams, Prompt_created_at = 3, Prompt_updated_at = 3\<rparr>]
   \<and> getPrompt 1 (snd (deleteProject 1 one_of_each)) =
       Inr (Some \<lparr>Prompt_id = 1, Prompt_bot_id = 1, Prompt_name = ''New Prompt'',
             Prompt_system_prompt = '''', Prompt_user_prompt = '''', Prompt_dev_prompt = '''',
             Prompt_params = defaultParams, Prompt_created_at = 3, Prompt_updated_at = 3\<rparr>)"
  by (simp add: one_of_each_def fresh_session_def init_def initSchema_def Database_new_def
      DatabaseService_new_def createProject_def createBot_def createPrompt_def
      insert_project_def insert_bot_def insert_prompt_def new_rowid_def
      deleteProject_def delete_project_def getProject_def getBots_def getPrompts_def
      getPrompt_def exec_def)

section \<open>Creating a bot\<close>

text \<open>
  C2. Evaluation of \<^verbatim>\<open>createBot\<close> with the project id 42 on the session just
  initialized, which has no project: the call succeeds and the bots table holds a row
  whose \<^verbatim>\<open>project_id\<close> is 42, while \<^verbatim>\<open>getProject(42)\<close> finds nothing. The
  reference that the schema declares for \<^verbatim>\<open>bots.project_id\<close> is not checked.
\<close>

theorem createBot_without_project:
  "getProject 42 fresh_session = Inr None
   \<and> fst (createBot 7 42 ''B'' '''' fresh_session) = Inr ()
   \<and> getBots 42 (snd (createBot 7 42 ''B'' '''' fresh_session)) =
       Inr [\<lparr>Bot_id = 1, Bot_project_id = 42, Bot_name = ''B'', Bot_description = Some '''',
             Bot_created_at = 7, Bot_updated_at = 7\<rparr>]
   \<and> getProject 42 (snd (createBot 7 42 ''B'' '''' fresh_session)) = Inr None"
  by (simp add: fresh_session_def init_def initSchema_def Database_new_def
      DatabaseService_new_def createBot_def insert_bot_def new_rowid_def
      getProject_def getBots_def exec_def)

section \<open>Calls before init\<close>

text \<open>
  C3. Evaluation of every operation on the service as constructed, before any
  \<^verbatim>\<open>init\<close>. \<^verbatim>\<open>export\<close> checks the engine and throws the error
  \<^verbatim>\<open>Database not initialized\<close>. No other method has that check: each read and
  each write calls a method of \<^verbatim>\<open>null\<close> and throws a \<^verbatim>\<open>TypeError\<close>, which
  is not that error, and \<^verbatim>\<open>updatePrompt\<close> with no field returns without any error.
  The service is the same after each call.
\<close>

theorem uninitialized_not_uniform:
  "getProjects DatabaseService_new = Inl (TypeError ''exec'')
   \<and> getProjects DatabaseService_new \<noteq> Inl NotInitialized
   \<and> updatePrompt 0 1 no_fields DatabaseService_new = (Inr (), DatabaseService_new)
   \<and> (\<forall>sql. export sql DatabaseService_new = Inl NotInitialized)
   \<and> NotInitialized = Error ''Database not initialized''
   \<and> getProject 1 DatabaseService_new = Inl (TypeError ''exec'')
   \<and> getBots 1 DatabaseService_new = Inl (TypeError ''exec'')
   \<and> getBot 1 DatabaseService_new = Inl (TypeError ''exec'')
   \<and> getPrompts 1 DatabaseService_new = Inl (TypeError ''exec'')
   \<and> getPrompt 1 DatabaseService_new = Inl (TypeError ''exec'')
   \<and> createProject 0 ''P'' '''' DatabaseService_new
       = (Inl (TypeError ''prepare''), DatabaseService_new)
   \<and> updateProject 0 1 ''P'' '''' DatabaseService_new
       = (Inl (TypeError ''prepare''), DatabaseService_new)
   \<and> deleteProject 1 DatabaseService_new = (Inl (TypeError ''run''), DatabaseService_new)
   \<and> createBot 0 1 ''B'' '''' DatabaseService_new
       = (Inl (TypeError ''prepare''), DatabaseService_new)
   \<and> updateBot 0 1 ''B'' '''' DatabaseService_new
       = (Inl (TypeError ''prepare''), DatabaseService_new)
   \<and> deleteBot 1 DatabaseService_new = (Inl (TypeError ''run''), DatabaseService_new)
   \<and> createPrompt 0 1 ''N'' DatabaseService_new
       = (Inl (TypeError ''prepare''), DatabaseService_new)
   \<and> updatePrompt 0 1 (no_fields\<lparr>Partial_name := Some ''X''\<rparr>) DatabaseService_new
       = (Inl (TypeError ''run''), DatabaseService_new)
   \<and> deletePrompt 1 DatabaseService_new = (Inl (TypeError ''run''), DatabaseService_new)
   \<and> duplicatePrompt 0 1 DatabaseService_new
       = (Inl (TypeError ''exec''), DatabaseService_new)"
  by (simp add: getProjects_def getProject_def getBots_def getBot_def getPrompts_def
      getPrompt_def createProject_def updateProject_def deleteProject_def createBot_def
      updateBot_def deleteBot_def createPrompt_def updatePrompt_def deletePrompt_def
      duplicatePrompt_def export_def DatabaseService_new_def NotInitialized_def
      no_fields_def)

section \<open>Saving when write access is refused\<close>

text \<open>
  The statement of C4 that a refused save returns without raising, drops the binding and
  clears the remembered handle does not hold. With a service bound to
  \<^verbatim>\<open>prompts.sqlite\<close>, the handle remembered in the store and write access refused,
  \<^verbatim>\<open>saveToDisk\<close> raises the \<^verbatim>\<open>NotAllowedError\<close>, whatever the engine exports;
  the binding and the remembered handle stay.
\<close>

theorem saveToDisk_refused_raises:
  "createWritable refusing prompts_sqlite = Some (DOMException ''NotAllowedError'')
   \<and> (\<forall>sql. saveToDisk sql refusing bound_world
       = (Inl (DOMException ''NotAllowedError''), bound_world))
   \<and> fileHandle (service bound_world) = Some prompts_sqlite
   \<and> db_handle bound_world = Some prompts_sqlite"
  by (simp add: saveToDisk_def bound_world_def refusing_def)

text \<open>
  C4. For every initialized, bound service whose handle refuses \<^verbatim>\<open>createWritable\<close>,
  \<^verbatim>\<open>saveToDisk\<close> raises that rejection to its caller and \<^verbatim>\<open>handleSaveDb\<close>
  reports the failed save with it; the binding, the remembered handle, the files and the
  in-memory database are all left as they were.
\<close>

theorem saveToDisk_refused:
  assumes "db (service w) = Some d"
    and "fileHandle (service w) = Some h"
    and "createWritable fa h = Some e"
  shows "saveToDisk sql fa w = (Inl e, w) \<and> handleSaveDb sql fa w = (FailedAlert e, w)"
  using assms by (simp add: saveToDisk_def handleSaveDb_def)

theorem saveToDisk_refused_witness:
  "db (service bound_world) = Some Database_new
   \<and> fileHandle (service bound_world) = Some prompts_sqlite
   \<and> createWritable refusing prompts_sqlite = Some (DOMException ''NotAllowedError'')
   \<and> (\<forall>sql. saveToDisk sql refusing bound_world
       = (Inl (DOMException ''NotAllowedError''), bound_world))
   \<and> (\<forall>sql. handleSaveDb sql refusing bound_world
       = (FailedAlert (DOMException ''NotAllowedError''), bound_world))"
proof -
  have h1: "db (service bound_world) = Some Database_new"
    by (simp add: bound_world_def)
  have h2: "fileHandle (service bound_world) = Some prompts_sqlite"
    by (simp add: bound_world_def)
  have h3: "createWritable refusing prompts_sqlite = Some (DOMException ''NotAllowedError'')"
    by (simp add: refusing_def)
  show ?thesis
    using h1 h2 h3 saveToDisk_refused [OF h1 h2 h3] by simp
qed

section \<open>Listings\<close>

text \<open>
  C6. In every initialized session, \<^verbatim>\<open>getProjects\<close>, \<^verbatim>\<open>getBots(p)\<close> and
  \<^verbatim>\<open>getPrompts(b)\<close> return exactly the rows selected, ordered by
  \<^verbatim>\<open>updated_at\<close> descending; and after \<^verbatim>\<open>createProject\<close>,
  \<^verbatim>\<open>createBot(p, ...)\<close> or \<^verbatim>\<open>createPrompt(b, ...)\<close> the row created, under a
  new identity and stamped with the engine's clock, is in the listing of its parent,
  which is ordered the same way.
\<close>

theorem listings_recent_first:
  assumes "db s = Some d"
  shows "(\<exists>ps. getProjects s = Inr ps \<and> sorted_desc Project_updated_at ps
              \<and> mset ps = mset (projects d))
       \<and> (\<exists>bs. getBots p s = Inr bs \<and> sorted_desc Bot_updated_at bs
              \<and> mset bs = mset (filter (\<lambda>r. Bot_project_id r = p) (bots d)))
       \<and> (\<exists>qs. getPrompts b s = Inr qs \<and> sorted_desc Prompt_updated_at qs
              \<and> mset qs = mset (filter (\<lambda>r. Prompt_bot_id r = b) (prompts d)))
       \<and> (\<exists>s' ps r. createProject now n de s = (Inr (), s')
              \<and> getProjects s' = Inr ps \<and> sorted_desc Project_updated_at ps
              \<and> r \<in> set ps \<and> Project_name r = n \<and> Project_description r = Some de
              \<and> Project_updated_at r = now \<and> Project_id r \<notin> Project_id ` set (projects d))
       \<and> (\<exists>s' bs r. createBot now p n de s = (Inr (), s')
              \<and> getBots p s' = Inr bs \<and> sorted_desc Bot_updated_at bs
              \<and> r \<in> set bs \<and> Bot_project_id r = p \<and> Bot_name r = n
              \<and> Bot_description r = Some de
              \<and> Bot_updated_at r = now \<and> Bot_id r \<notin> Bot_id ` set (bots d))
       \<and> (\<exists>rid s' qs r. createPrompt now b n s = (Inr rid, s')
              \<and> getPrompts b s' = Inr qs \<and> sorted_desc Prompt_updated_at qs
              \<and> r \<in> set qs \<and> Prompt_id r = rid \<and> Prompt_bot_id r = b \<and> Prompt_name r = n
              \<and> Prompt_updated_at r = now \<and> rid \<notin> Prompt_id ` set (prompts d))"
proof (intro conjI)
  show "\<exists>ps. getProjects s = Inr ps \<and> sorted_desc Project_updated_at ps
              \<and> mset ps = mset (projects d)"
    using getProjects_listing [OF assms] sorted_desc_listing by blast
  show "\<exists>bs. getBots p s = Inr bs \<and> sorted_desc Bot_updated_at bs
              \<and> mset bs = mset (filter (\<lambda>r. Bot_project_id r = p) (bots d))"
    using getBots_listing [OF assms] sorted_desc_listing by blast
  show "\<exists>qs. getPrompts b s = Inr qs \<and> sorted_desc Prompt_updated_at qs
              \<and> mset qs = mset (filter (\<lambda>r. Prompt_bot_id r = b) (prompts d))"
    using getPrompts_listing [OF assms] sorted_desc_listing by blast
qed (rule createProject_listed [OF assms] createBot_listed [OF assms]
          createPrompt_listed [OF assms])+

theorem listings_recent_first_witness:
  "db one_of_each \<noteq> None
   \<and> (\<exists>ps. getProjects one_of_each = Inr ps \<and> sorted_desc Project_updated_at ps)
   \<and> (\<exists>s' bs r. createBot 5 1 ''B2'' '''' one_of_each = (Inr (), s')
          \<and> getBots 1 s' = Inr bs \<and> sorted_desc Bot_updated_at bs
          \<and> r \<in> set bs \<and> Bot_name r = ''B2'' \<and> Bot_updated_at r = 5)"
proof -
  obtain d where h: "db one_of_each = Some d"
    using one_of_each_db by blast
  from listings_recent_first [OF h, of 1 1 5 "''B2''" "''''"]
  have "(\<exists>ps. getProjects one_of_each = Inr ps \<and> sorted_desc Project_updated_at ps)"
    and "(\<exists>s' bs r. createBot 5 1 ''B2'' '''' one_of_each = (Inr (), s')
          \<and> getBots 1 s' = Inr bs \<and> sorted_desc Bot_updated_at bs
          \<and> r \<in> set bs \<and> Bot_name r = ''B2'' \<and> Bot_updated_at r = 5)"
    by blast+
  with h show ?thesis by simp
qed

section \<open>Partial update of a prompt\<close>

text \<open>
  C7. In an initialized session, \<^verbatim>\<open>updatePrompt(i, f)\<close> with none of the updatable
  fields (name, system_prompt, user_prompt, dev_prompt, params) in \<open>f\<close> changes nothing,
  \<^verbatim>\<open>updated_at\<close> included. Otherwise it succeeds and in the row with id \<open>i\<close> each
  updatable column takes the value \<open>f\<close> gives it or keeps its own when \<open>f\<close> gives none,
  \<^verbatim>\<open>updated_at\<close> becomes the engine's clock, and \<^verbatim>\<open>id\<close>, \<^verbatim>\<open>bot_id\<close> and
  \<^verbatim>\<open>created_at\<close> stay; every other row, the other tables and the file handle stay.
\<close>

theorem updatePrompt_partial:
  assumes "db s = Some d"
  shows "updatePrompt now i f s =
     (if updatable f = (None, None, None, None, None) then (Inr (), s)
      else (Inr (), s\<lparr>db := Some (d\<lparr>prompts :=
              map (\<lambda>r. if Prompt_id r = i
                   then \<lparr>Prompt_id = Prompt_id r, Prompt_bot_id = Prompt_bot_id r,
                         Prompt_name =
                           (case Partial_name f of Some v \<Rightarrow> v | None \<Rightarrow> Prompt_name r),
                         Prompt_system_prompt =
                           (case Partial_system_prompt f of Some v \<Rightarrow> v
                            | None \<Rightarrow> Prompt_system_prompt r),
                         Prompt_user_prompt =
                           (case Partial_user_prompt f of Some v \<Rightarrow> v
                            | None \<Rightarrow> Prompt_user_prompt r),
                         Prompt_dev_prompt =
                           (case Partial_dev_prompt f of Some v \<Rightarrow> v
                            | None \<Rightarrow> Prompt_dev_prompt r),
                         Prompt_params =
                           (case Partial_params f of Some v \<Rightarrow> v | None \<Rightarrow> Prompt_params r),
                         Prompt_created_at = Prompt_created_at r,
                         Prompt_updated_at = now\<rparr>
                   else r) (prompts d)\<rparr>)\<rparr>))"
proof (cases "updatable f = (None, None, None, None, None)")
  case True
  then show ?thesis
    by (simp add: updatePrompt_def updatable_def)
next
  case False
  then have ne: "(case Partial_name f of Some v \<Rightarrow> [SetName v] | None \<Rightarrow> []) @
      (case Partial_system_prompt f of Some v \<Rightarrow> [SetSystemPrompt v] | None \<Rightarrow> []) @
      (case Partial_user_prompt f of Some v \<Rightarrow> [SetUserPrompt v] | None \<Rightarrow> []) @
      (case Partial_dev_prompt f of Some v \<Rightarrow> [SetDevPrompt v] | None \<Rightarrow> []) @
      (case Partial_params f of Some v \<Rightarrow> [SetParams v] | None \<Rightarrow> []) \<noteq> []"
    unfolding updatable_def updates_empty by simp
  show ?thesis
    unfolding updatePrompt_def Let_def update_prompts_def
    using False ne assms
    by (simp only: if_False option.case append_assoc fold_assign_updates)
qed

theorem updatePrompt_partial_witness:
  "db one_of_each \<noteq> None
   \<and> getPrompt 1 (snd (updatePrompt 9 1 (no_fields\<lparr>Partial_name := Some ''X''\<rparr>) one_of_each))
       = Inr (Some \<lparr>Prompt_id = 1, Prompt_bot_id = 1, Prompt_name = ''X'',
             Prompt_system_prompt = '''', Prompt_user_prompt = '''', Prompt_dev_prompt = '''',
             Prompt_params = defaultParams, Prompt_created_at = 3, Prompt_updated_at = 9\<rparr>)
   \<and> updatePrompt 9 1 no_fields one_of_each = (Inr (), one_of_each)"
proof -
  obtain d where h: "db one_of_each = Some d"
    and rows: "prompts d = [\<lparr>Prompt_id = 1, Prompt_bot_id = 1, Prompt_name = ''New Prompt'',
             Prompt_system_prompt = '''', Prompt_user_prompt = '''', Prompt_dev_prompt = '''',
             Prompt_params = defaultParams, Prompt_created_at = 3, Prompt_updated_at = 3\<rparr>]"
    using one_of_each_db by simp
  have u1: "updatable (no_fields\<lparr>Partial_name := Some ''X''\<rparr>) \<noteq> (None, None, None, None, None)"
    by (simp add: updatable_def no_fields_def)
  have u2: "updatable no_fields = (None, None, None, None, None)"
    by (simp add: updatable_def no_fields_def)
  show ?thesis
    using h rows u1 u2
      updatePrompt_partial [OF h, of 9 1 "no_fields\<lparr>Partial_name := Some ''X''\<rparr>"]
      updatePrompt_partial [OF h, of 9 1 no_fields]
    by (simp add: getPrompt_def exec_def no_fields_def)
qed

section \<open>Creating a prompt\<close>

text \<open>
  C8. In an initialized session, \<^verbatim>\<open>createPrompt(b, n)\<close> appends one prompt row for
  bot \<open>b\<close> named \<open>n\<close>, with empty system, user and dev prompts and, as params, the text
  of three lines \<^verbatim>\<open>{\<close>, \<^verbatim>\<open>  "temperature": 0.7,\<close> and
  \<^verbatim>\<open>  "maxOutputTokens": 1024\<close> closed by \<^verbatim>\<open>}\<close>. It returns the rowid the engine
  reports for that insert, which no earlier prompt has; \<^verbatim>\<open>getPrompt\<close> of that id
  returns the row. When the prompts table is empty and has never held a row, the id is 1.
\<close>

theorem createPrompt_defaults:
  assumes "db s = Some d"
  shows "\<exists>rid row s'.
           createPrompt now b n s = (Inr rid, s')
         \<and> row = \<lparr>Prompt_id = rid, Prompt_bot_id = b, Prompt_name = n,
                   Prompt_system_prompt = '''', Prompt_user_prompt = '''',
                   Prompt_dev_prompt = '''',
                   Prompt_params =
                     ''{'' @ [CHR 0x0A] @
                     ''  '' @ [CHR 0x22] @ ''temperature'' @ [CHR 0x22] @ '': 0.7,''
                       @ [CHR 0x0A] @
                     ''  '' @ [CHR 0x22] @ ''maxOutputTokens'' @ [CHR 0x22] @ '': 1024''
                       @ [CHR 0x0A] @
                     ''}'',
                   Prompt_created_at = now, Prompt_updated_at = now\<rparr>
         \<and> Prompt_params row = defaultParams
         \<and> length (Prompt_params row) = 51
         \<and> rid = snd (insert_prompt now b n '''' '''' '''' defaultParams d)
         \<and> rid \<notin> Prompt_id ` set (prompts d)
         \<and> (prompts d = [] \<and> seq_prompts d = 0 \<longrightarrow> rid = 1)
         \<and> s' = s\<lparr>db := Some (d\<lparr>prompts := prompts d @ [row], seq_prompts := rid\<rparr>)\<rparr>
         \<and> getPrompt rid s' = Inr (Some row)"
proof -
  let ?rid = "new_rowid (map Prompt_id (prompts d)) (seq_prompts d)"
  let ?row = "\<lparr>Prompt_id = ?rid, Prompt_bot_id = b, Prompt_name = n,
                   Prompt_system_prompt = '''', Prompt_user_prompt = '''',
                   Prompt_dev_prompt = '''',
                   Prompt_params =
                     ''{'' @ [CHR 0x0A] @
                     ''  '' @ [CHR 0x22] @ ''temperature'' @ [CHR 0x22] @ '': 0.7,''
                       @ [CHR 0x0A] @
                     ''  '' @ [CHR 0x22] @ ''maxOutputTokens'' @ [CHR 0x22] @ '': 1024''
                       @ [CHR 0x0A] @
                     ''}'',
                   Prompt_created_at = now, Prompt_updated_at = now\<rparr>"
  let ?s' = "s\<lparr>db := Some (d\<lparr>prompts := prompts d @ [?row], seq_prompts := ?rid\<rparr>)\<rparr>"
  have c: "createPrompt now b n s = (Inr ?rid, ?s')"
    using assms by (simp add: createPrompt_def insert_prompt_def defaultParams_def Let_def)
  have p: "Prompt_params ?row = defaultParams \<and> length (Prompt_params ?row) = 51"
    by (simp add: defaultParams_def)
  have l: "?rid = snd (insert_prompt now b n '''' '''' '''' defaultParams d)"
    by (simp add: insert_prompt_rows)
  have f: "?rid \<notin> Prompt_id ` set (prompts d)"
    using new_rowid_fresh [of "map Prompt_id (prompts d)" "seq_prompts d"] by simp
  have one: "prompts d = [] \<and> seq_prompts d = 0 \<longrightarrow> ?rid = 1"
    by (simp add: new_rowid_first)
  have "Prompt_id ?row \<notin> Prompt_id ` set (prompts d)"
    using f by simp
  then have "filter (\<lambda>r. Prompt_id r = Prompt_id ?row) (prompts d @ [?row]) = [?row]"
    by (rule filter_new_row)
  then have g: "getPrompt ?rid ?s' = Inr (Some ?row)"
    by (simp add: getPrompt_def exec_def)
  from c p l f one g show ?thesis by blast
qed

theorem createPrompt_defaults_witness:
  "db fresh_session = Some Database_new
   \<and> createPrompt 3 1 ''New Prompt'' fresh_session =
       (Inr 1, fresh_session\<lparr>db := Some (Database_new\<lparr>prompts :=
          [\<lparr>Prompt_id = 1, Prompt_bot_id = 1, Prompt_name = ''New Prompt'',
            Prompt_system_prompt = '''', Prompt_user_prompt = '''', Prompt_dev_prompt = '''',
            Prompt_params =
              ''{'' @ [CHR 0x0A] @
              ''  '' @ [CHR 0x22] @ ''temperature'' @ [CHR 0x22] @ '': 0.7,'' @ [CHR 0x0A] @
              ''  '' @ [CHR 0x22] @ ''maxOutputTokens'' @ [CHR 0x22] @ '': 1024''
                @ [CHR 0x0A] @
              ''}'',
            Prompt_created_at = 3, Prompt_updated_at = 3\<rparr>],
          seq_prompts := 1\<rparr>)\<rparr>)
   \<and> getPrompt 1 (snd (createPrompt 3 1 ''New Prompt'' fresh_session)) =
       Inr (Some \<lparr>Prompt_id = 1, Prompt_bot_id = 1, Prompt_name = ''New Prompt'',
            Prompt_system_prompt = '''', Prompt_user_prompt = '''', Prompt_dev_prompt = '''',
            Prompt_params =
              ''{'' @ [CHR 0x0A] @
              ''  '' @ [CHR 0x22] @ ''temperature'' @ [CHR 0x22] @ '': 0.7,'' @ [CHR 0x0A] @
              ''  '' @ [CHR 0x22] @ ''maxOutputTokens'' @ [CHR 0x22] @ '': 1024''
                @ [CHR 0x0A] @
              ''}'',
            Prompt_created_at = 3, Prompt_updated_at = 3\<rparr>)"
proof -
  have h: "db fresh_session = Some Database_new"
    by (simp add: fresh_session_def init_def initSchema_def)
  have e: "prompts Database_new = [] \<and> seq_prompts Database_new = 0"
    by (simp add: Database_new_def)
  show ?thesis
    using h e createPrompt_defaults [OF h, of 3 1 "''New Prompt''"]
    by auto
qed

section \<open>Duplicating a prompt\<close>



section \<open>Identities that do not occur\<close>

text \<open>
  C10. In an initialized session, \<^verbatim>\<open>deleteProject\<close>, \<^verbatim>\<open>deleteBot\<close>,
  \<^verbatim>\<open>deletePrompt\<close> and \<^verbatim>\<open>updatePrompt\<close> (with any field record) called with an
  id that does not occur in the table they address return without error and leave the
  whole service, hence every row of every table, as it was.
\<close>

theorem absent_id_noop:
  assumes "db s = Some d"
  shows "(p \<notin> Project_id ` set (projects d) \<longrightarrow> deleteProject p s = (Inr (), s))
       \<and> (b \<notin> Bot_id ` set (bots d) \<longrightarrow> deleteBot b s = (Inr (), s))
       \<and> (q \<notin> Prompt_id ` set (prompts d) \<longrightarrow>
            deletePrompt q s = (Inr (), s) \<and> updatePrompt now q f s = (Inr (), s))"
proof (intro conjI impI)
  assume "p \<notin> Project_id ` set (projects d)"
  then show "deleteProject p s = (Inr (), s)"
    using assms by (simp add: deleteProject_def delete_project_def filter_absent service_same)
next
  assume "b \<notin> Bot_id ` set (bots d)"
  then show "deleteBot b s = (Inr (), s)"
    using assms by (simp add: deleteBot_def delete_bot_def filter_absent service_same)
next
  assume "q \<notin> Prompt_id ` set (prompts d)"
  then show "deletePrompt q s = (Inr (), s)"
    using assms by (simp add: deletePrompt_def delete_prompt_def filter_absent service_same)
next
  assume "q \<notin> Prompt_id ` set (prompts d)"
  then show "updatePrompt now q f s = (Inr (), s)"
    using assms
    by (simp add: updatePrompt_def update_prompts_def map_absent service_same Let_def)
qed

theorem absent_id_noop_witness:
  "db fresh_session = Some Database_new
   \<and> deleteProject 5 fresh_session = (Inr (), fresh_session)
   \<and> deleteBot 6 fresh_session = (Inr (), fresh_session)
   \<and> deletePrompt 7 fresh_session = (Inr (), fresh_session)
   \<and> updatePrompt 9 7 (no_fields\<lparr>Partial_name := Some ''X''\<rparr>) fresh_session
       = (Inr (), fresh_session)"
proof -
  have h: "db fresh_session = Some Database_new"
    by (simp add: fresh_session_def init_def initSchema_def)
  show ?thesis
    using h absent_id_noop [OF h, of 5 6 7 9 "no_fields\<lparr>Partial_name := Some ''X''\<rparr>"]
    by (simp add: Database_new_def)
qed

end
